theory Spec2Isabelle
  imports Complex_Main
begin

section \<open>Data model\<close>

text \<open>
  The C++ \<^verbatim>\<open>float\<close> is carried as a \<^typ>\<open>real\<close>. The RigidBody operations only move
  floats around; the one place where the source does float arithmetic (the
  fixture-definition properties) takes the rounding of a float operation as a parameter.
  A two-dimensional vector (\<^verbatim>\<open>sf::Vector2f\<close> in game space, \<^verbatim>\<open>b2Vec2\<close> in the physics
  engine) is a pair of its \<^verbatim>\<open>x\<close> and \<^verbatim>\<open>y\<close>.
\<close>

type_synonym Vector2f = "real \<times> real"
type_synonym b2Vec2 = "real \<times> real"

datatype b2BodyType = b2_staticBody | b2_kinematicBody | b2_dynamicBody

text \<open>
  The shapes the factories hand to the engine. \<^verbatim>\<open>polygon.SetAsBox(hx, hy)\<close> is kept as
  the two half-extents it was called with, a circle as \<^verbatim>\<open>m_p\<close> and \<^verbatim>\<open>m_radius\<close>, an edge
  as the two end points given to \<^verbatim>\<open>line.Set\<close>.
\<close>

datatype b2Shape =
    b2PolygonShape_SetAsBox real real
  | b2CircleShape (m_p: b2Vec2) (m_radius: real)
  | b2EdgeShape b2Vec2 b2Vec2

record b2FixtureDef =
  shape :: "b2Shape option"
  density :: real
  friction :: real
  restitution :: real

record b2BodyDef =
  type :: b2BodyType
  position :: b2Vec2
  angle :: real
  linearVelocity :: b2Vec2
  gravityScale :: real

text \<open>
  What the physics engine is asked to do to a body through the force and impulse entry
  points: the call and its arguments, the last one being the wake flag.
\<close>

datatype b2Call =
    ApplyForce b2Vec2 b2Vec2 bool
  | ApplyForceToCenter b2Vec2 bool
  | ApplyLinearImpulse b2Vec2 b2Vec2 bool
  | ApplyLinearImpulseToCenter b2Vec2 bool

record b2Body =
  b_type :: b2BodyType
  b_position :: b2Vec2
  b_angle :: real
  b_linearVelocity :: b2Vec2
  b_gravityScale :: real
  b_fixtures :: "b2FixtureDef list"
  b_calls :: "b2Call list"

text \<open>
  The physics world owns the bodies. A \<^verbatim>\<open>b2Body*\<close> is the index of a slot of the world;
  a slot holding \<open>None\<close> is a body that has been destroyed. \<^verbatim>\<open>nullptr\<close> is \<open>None\<close>
  at the pointer's type \<^typ>\<open>nat option\<close>.
\<close>

type_synonym b2World = "b2Body option list"

text \<open>The members of \<^verbatim>\<open>RigidBody\<close> are written without their trailing underscore.\<close>

record RigidBody =
  body :: "nat option"
  previousPosition :: b2Vec2
  previousAngle :: real
  isOutOfSync :: bool
  disposeList :: "nat option list"

text \<open>
  Dereferencing a null or a dangling \<^verbatim>\<open>b2Body*\<close> is undefined behaviour in the source;
  the model makes it a value, so that it is never mistaken for a result.
\<close>

datatype fault = NullDereference | DanglingDereference

section \<open>The physics engine's interface\<close>

text \<open>
  Modelled from the spec: the external physics world and body (create body, create
  fixture, apply force/impulse, set transform/velocity, get angle, gravity scale), which
  are not part of the sources. Creating a body allocates a new slot initialised from the
  definition; the setters store their argument, the getters read it back; a force or an
  impulse is recorded as the call the engine received.
\<close>

definition b2Body_of :: "b2BodyDef \<Rightarrow> b2Body" where
  "b2Body_of d =
     \<lparr>b_type = type d, b_position = position d, b_angle = angle d,
      b_linearVelocity = linearVelocity d, b_gravityScale = gravityScale d,
      b_fixtures = [], b_calls = []\<rparr>"

definition CreateBody :: "b2BodyDef \<Rightarrow> b2World \<Rightarrow> b2World \<times> nat option" where
  "CreateBody d w = (w @ [Some (b2Body_of d)], Some (length w))"

definition CreateFixture :: "b2FixtureDef \<Rightarrow> b2Body \<Rightarrow> b2Body" where
  "CreateFixture d b = b\<lparr>b_fixtures := b_fixtures b @ [d]\<rparr>"

definition SetTransform :: "b2Vec2 \<Rightarrow> real \<Rightarrow> b2Body \<Rightarrow> b2Body" where
  "SetTransform p a b = b\<lparr>b_position := p, b_angle := a\<rparr>"

definition GetAngle :: "b2Body \<Rightarrow> real" where
  "GetAngle b = b_angle b"

definition SetLinearVelocity :: "b2Vec2 \<Rightarrow> b2Body \<Rightarrow> b2Body" where
  "SetLinearVelocity v b = b\<lparr>b_linearVelocity := v\<rparr>"

definition GetGravityScale :: "b2Body \<Rightarrow> real" where
  "GetGravityScale b = b_gravityScale b"

definition SetGravityScale :: "real \<Rightarrow> b2Body \<Rightarrow> b2Body" where
  "SetGravityScale g b = b\<lparr>b_gravityScale := g\<rparr>"

definition engine_call :: "b2Call \<Rightarrow> b2Body \<Rightarrow> b2Body" where
  "engine_call c b = b\<lparr>b_calls := b_calls b @ [c]\<rparr>"

definition b2BodyDef_default :: b2BodyDef where
  "b2BodyDef_default =
     \<lparr>type = b2_staticBody, position = (0, 0), angle = 0, linearVelocity = (0, 0),
      gravityScale = 1\<rparr>"

section \<open>Pointers into the world\<close>

definition live :: "b2World \<Rightarrow> nat \<Rightarrow> bool" where
  "live w h = (h < length w \<and> w ! h \<noteq> None)"

text \<open>\<^verbatim>\<open>body_->...\<close>: the body a pointer leads to, or the fault of following it.\<close>

definition deref :: "b2World \<Rightarrow> nat option \<Rightarrow> fault + b2Body" where
  "deref w p =
     (case p of
        None \<Rightarrow> Inl NullDereference
      | Some h \<Rightarrow>
          if h < length w then
            (case w ! h of None \<Rightarrow> Inl DanglingDereference | Some b \<Rightarrow> Inr b)
          else Inl DanglingDereference)"

text \<open>
  \<^verbatim>\<open>body_->method(args)\<close> for a method that changes the body: the world with the body
  behind \<open>body\<close> replaced by what the method makes of it.
\<close>

definition on_body ::
  "(b2Body \<Rightarrow> b2Body) \<Rightarrow> b2World \<times> RigidBody \<Rightarrow> fault + b2World \<times> RigidBody" where
  "on_body f s =
     (case s of (w, rb) \<Rightarrow>
        (case deref w (body rb) of
           Inl e \<Rightarrow> Inl e
         | Inr b \<Rightarrow> Inr (w[the (body rb) := Some (f b)], rb)))"

section \<open>RigidBody\<close>

text \<open>
  \<^verbatim>\<open>PhysicsSystem::convertToB2\<close> is declared outside the sources; every operation that
  uses it takes it as the parameter \<open>convertToB2\<close>.
\<close>

subsection \<open>Shape factories\<close>

definition BoxShape :: "(Vector2f \<Rightarrow> b2Vec2) \<Rightarrow> real \<Rightarrow> real \<Rightarrow> b2Shape" where
  "BoxShape convertToB2 w h =
     (let pos = convertToB2 (w, h) in b2PolygonShape_SetAsBox (fst pos) (snd pos))"

definition CircleShape :: "(Vector2f \<Rightarrow> b2Vec2) \<Rightarrow> real \<Rightarrow> real \<Rightarrow> real \<Rightarrow> b2Shape" where
  "CircleShape convertToB2 x y r =
     (let pos = convertToB2 (x, y) in b2CircleShape (fst pos, snd pos) r)"

definition LineShape ::
  "(Vector2f \<Rightarrow> b2Vec2) \<Rightarrow> real \<Rightarrow> real \<Rightarrow> real \<Rightarrow> real \<Rightarrow> b2Shape" where
  "LineShape convertToB2 x1 y1 x2 y2 =
     (let begin_pt = convertToB2 (x1, y1); end_pt = convertToB2 (x2, y2)
      in b2EdgeShape begin_pt end_pt)"

subsection \<open>Construction and replacement of the body\<close>

text \<open>
  The constructor: \<^verbatim>\<open>body_(physics_->CreateBody(&defaultBodyDefinition_))\<close>, zero cached
  transform, out of sync. \<open>physics_\<close> is the world the state carries.
\<close>

definition RigidBody_ctor :: "b2World \<Rightarrow> b2World \<times> RigidBody" where
  "RigidBody_ctor w =
     (case CreateBody b2BodyDef_default w of (w', p) \<Rightarrow>
        (w', \<lparr>body = p, previousPosition = (0, 0), previousAngle = 0,
              isOutOfSync = True, disposeList = []\<rparr>))"

text \<open>The four statements of \<^verbatim>\<open>instantiateBody\<close>, one function each.\<close>

definition stmt_push_back :: "b2World \<times> RigidBody \<Rightarrow> b2World \<times> RigidBody" where
  "stmt_push_back s =
     (case s of (w, rb) \<Rightarrow> (w, rb\<lparr>disposeList := disposeList rb @ [body rb]\<rparr>))"

definition stmt_null_body :: "b2World \<times> RigidBody \<Rightarrow> b2World \<times> RigidBody" where
  "stmt_null_body s = (case s of (w, rb) \<Rightarrow> (w, rb\<lparr>body := None\<rparr>))"

definition stmt_create :: "b2BodyDef \<Rightarrow> b2World \<times> RigidBody \<Rightarrow> b2World \<times> RigidBody" where
  "stmt_create d s =
     (case s of (w, rb) \<Rightarrow> (case CreateBody d w of (w', p) \<Rightarrow> (w', rb\<lparr>body := p\<rparr>)))"

definition stmt_out_of_sync :: "b2World \<times> RigidBody \<Rightarrow> b2World \<times> RigidBody" where
  "stmt_out_of_sync s = (case s of (w, rb) \<Rightarrow> (w, rb\<lparr>isOutOfSync := True\<rparr>))"

definition instantiateBody :: "b2BodyDef \<Rightarrow> b2World \<times> RigidBody \<Rightarrow> b2World \<times> RigidBody" where
  "instantiateBody d s =
     (let s1 = (if body (snd s) \<noteq> None then stmt_null_body (stmt_push_back s) else s);
          s2 = stmt_create d s1
      in stmt_out_of_sync s2)"

text \<open>
  The same run, keeping the state after each statement that is executed; the trace of a
  call starts with the state on entry.
\<close>

definition instantiateBody_steps ::
  "b2BodyDef \<Rightarrow> b2World \<times> RigidBody \<Rightarrow> (b2World \<times> RigidBody) list" where
  "instantiateBody_steps d s =
     (let guard = (if body (snd s) \<noteq> None
                   then [stmt_push_back s, stmt_null_body (stmt_push_back s)] else []);
          s1 = last (s # guard);
          s2 = stmt_create d s1
      in guard @ [s2, stmt_out_of_sync s2])"

definition instantiateBody_trace ::
  "b2BodyDef \<Rightarrow> b2World \<times> RigidBody \<Rightarrow> (b2World \<times> RigidBody) list" where
  "instantiateBody_trace d s = s # instantiateBody_steps d s"

text \<open>A sequence of \<^verbatim>\<open>instantiate\<close> calls, and every state it passes through.\<close>

fun instantiate_all :: "b2BodyDef list \<Rightarrow> b2World \<times> RigidBody \<Rightarrow> b2World \<times> RigidBody" where
  "instantiate_all [] s = s"
| "instantiate_all (d # ds) s = instantiate_all ds (instantiateBody d s)"

fun instantiate_all_steps ::
  "b2BodyDef list \<Rightarrow> b2World \<times> RigidBody \<Rightarrow> (b2World \<times> RigidBody) list" where
  "instantiate_all_steps [] s = []"
| "instantiate_all_steps (d # ds) s =
     instantiateBody_steps d s @ instantiate_all_steps ds (instantiateBody d s)"

definition instantiate_all_trace ::
  "b2BodyDef list \<Rightarrow> b2World \<times> RigidBody \<Rightarrow> (b2World \<times> RigidBody) list" where
  "instantiate_all_trace ds s = s # instantiate_all_steps ds s"

text \<open>
  The bodies created since the world had \<open>n0\<close> slots that are alive and not on the
  component's dispose list, and the handles the component accounts for: the one it
  holds and the ones it has queued for disposal.
\<close>

definition unrelinquished :: "nat \<Rightarrow> b2World \<times> RigidBody \<Rightarrow> nat list" where
  "unrelinquished n0 s =
     filter (\<lambda>h. live (fst s) h \<and> Some h \<notin> set (disposeList (snd s)))
       [n0..<length (fst s)]"

definition held :: "b2World \<times> RigidBody \<Rightarrow> nat set" where
  "held s = set_option (body (snd s)) \<union> (\<Union>p \<in> set (disposeList (snd s)). set_option p)"

subsection \<open>Fixtures\<close>

definition addFixture ::
  "b2FixtureDef \<Rightarrow> b2World \<times> RigidBody \<Rightarrow> fault + b2World \<times> RigidBody" where
  "addFixture d s = on_body (CreateFixture d) s"

subsection \<open>Warping\<close>

text \<open>
  \<^verbatim>\<open>body_->SetTransform(convertToB2(dest), body_->GetAngle())\<close> reads the angle of the
  body and hands it back with the new position; \<^verbatim>\<open>SetLinearVelocity(b2Vec2(0,0))\<close>
  follows on the result.
\<close>

definition warpToVec ::
  "(Vector2f \<Rightarrow> b2Vec2) \<Rightarrow> Vector2f \<Rightarrow> b2World \<times> RigidBody \<Rightarrow> fault + b2World \<times> RigidBody" where
  "warpToVec convertToB2 dest s =
     (case deref (fst s) (body (snd s)) of
        Inl e \<Rightarrow> Inl e
      | Inr b \<Rightarrow>
          (case on_body (SetTransform (convertToB2 dest) (GetAngle b)) s of
             Inl e \<Rightarrow> Inl e
           | Inr s1 \<Rightarrow> on_body (SetLinearVelocity (0, 0)) s1))"

definition warpTo ::
  "(Vector2f \<Rightarrow> b2Vec2) \<Rightarrow> real \<Rightarrow> real \<Rightarrow> b2World \<times> RigidBody \<Rightarrow> fault + b2World \<times> RigidBody" where
  "warpTo convertToB2 x y s = warpToVec convertToB2 (x, y) s"

subsection \<open>Forces and impulses\<close>

text \<open>
  \<^verbatim>\<open>b2Body::GetWorldPoint\<close> belongs to the physics engine; the two operations that use it
  take it as the parameter \<open>GetWorldPoint\<close>.
\<close>

definition applyForceToCentreVec ::
  "(Vector2f \<Rightarrow> b2Vec2) \<Rightarrow> Vector2f \<Rightarrow> b2World \<times> RigidBody \<Rightarrow> fault + b2World \<times> RigidBody" where
  "applyForceToCentreVec convertToB2 force s =
     on_body (engine_call (ApplyForceToCenter (convertToB2 force) True)) s"

definition applyForceToCentre ::
  "(Vector2f \<Rightarrow> b2Vec2) \<Rightarrow> real \<Rightarrow> real \<Rightarrow> b2World \<times> RigidBody \<Rightarrow> fault + b2World \<times> RigidBody" where
  "applyForceToCentre convertToB2 i j s = applyForceToCentreVec convertToB2 (i, j) s"

definition applyForceRelVec ::
  "(Vector2f \<Rightarrow> b2Vec2) \<Rightarrow> (b2Body \<Rightarrow> b2Vec2 \<Rightarrow> b2Vec2) \<Rightarrow> Vector2f \<Rightarrow> Vector2f \<Rightarrow>
   b2World \<times> RigidBody \<Rightarrow> fault + b2World \<times> RigidBody" where
  "applyForceRelVec convertToB2 GetWorldPoint force relPos s =
     (case deref (fst s) (body (snd s)) of
        Inl e \<Rightarrow> Inl e
      | Inr b \<Rightarrow>
          on_body (engine_call
            (ApplyForce (convertToB2 force) (GetWorldPoint b (convertToB2 relPos)) True)) s)"

definition applyForceRel ::
  "(Vector2f \<Rightarrow> b2Vec2) \<Rightarrow> (b2Body \<Rightarrow> b2Vec2 \<Rightarrow> b2Vec2) \<Rightarrow> real \<Rightarrow> real \<Rightarrow> real \<Rightarrow> real \<Rightarrow>
   b2World \<times> RigidBody \<Rightarrow> fault + b2World \<times> RigidBody" where
  "applyForceRel convertToB2 GetWorldPoint i j x y s =
     applyForceRelVec convertToB2 GetWorldPoint (i, j) (x, y) s"

definition applyForceVec ::
  "(Vector2f \<Rightarrow> b2Vec2) \<Rightarrow> Vector2f \<Rightarrow> Vector2f \<Rightarrow>
   b2World \<times> RigidBody \<Rightarrow> fault + b2World \<times> RigidBody" where
  "applyForceVec convertToB2 force location s =
     on_body (engine_call (ApplyForce (convertToB2 force) (convertToB2 location) True)) s"

definition applyForce ::
  "(Vector2f \<Rightarrow> b2Vec2) \<Rightarrow> real \<Rightarrow> real \<Rightarrow> real \<Rightarrow> real \<Rightarrow>
   b2World \<times> RigidBody \<Rightarrow> fault + b2World \<times> RigidBody" where
  "applyForce convertToB2 i j x y s = applyForceVec convertToB2 (i, j) (x, y) s"

definition applyImpulseToCentreVec ::
  "(Vector2f \<Rightarrow> b2Vec2) \<Rightarrow> Vector2f \<Rightarrow> b2World \<times> RigidBody \<Rightarrow> fault + b2World \<times> RigidBody" where
  "applyImpulseToCentreVec convertToB2 impulse s =
     on_body (engine_call (ApplyLinearImpulseToCenter (convertToB2 impulse) True)) s"

definition applyImpulseToCentre ::
  "(Vector2f \<Rightarrow> b2Vec2) \<Rightarrow> real \<Rightarrow> real \<Rightarrow> b2World \<times> RigidBody \<Rightarrow> fault + b2World \<times> RigidBody" where
  "applyImpulseToCentre convertToB2 i j s = applyImpulseToCentreVec convertToB2 (i, j) s"

definition applyImpulseRelVec ::
  "(Vector2f \<Rightarrow> b2Vec2) \<Rightarrow> (b2Body \<Rightarrow> b2Vec2 \<Rightarrow> b2Vec2) \<Rightarrow> Vector2f \<Rightarrow> Vector2f \<Rightarrow>
   b2World \<times> RigidBody \<Rightarrow> fault + b2World \<times> RigidBody" where
  "applyImpulseRelVec convertToB2 GetWorldPoint impulse relPos s =
     (case deref (fst s) (body (snd s)) of
        Inl e \<Rightarrow> Inl e
      | Inr b \<Rightarrow>
          on_body (engine_call
            (ApplyLinearImpulse (convertToB2 impulse) (GetWorldPoint b (convertToB2 relPos)) True)) s)"

definition applyImpulseRel ::
  "(Vector2f \<Rightarrow> b2Vec2) \<Rightarrow> (b2Body \<Rightarrow> b2Vec2 \<Rightarrow> b2Vec2) \<Rightarrow> real \<Rightarrow> real \<Rightarrow> real \<Rightarrow> real \<Rightarrow>
   b2World \<times> RigidBody \<Rightarrow> fault + b2World \<times> RigidBody" where
  "applyImpulseRel convertToB2 GetWorldPoint i j x y s =
     applyImpulseRelVec convertToB2 GetWorldPoint (i, j) (x, y) s"

definition applyImpulseVec ::
  "(Vector2f \<Rightarrow> b2Vec2) \<Rightarrow> Vector2f \<Rightarrow> Vector2f \<Rightarrow>
   b2World \<times> RigidBody \<Rightarrow> fault + b2World \<times> RigidBody" where
  "applyImpulseVec convertToB2 impulse location s =
     on_body (engine_call (ApplyLinearImpulse (convertToB2 impulse) (convertToB2 location) True)) s"

definition applyImpulse ::
  "(Vector2f \<Rightarrow> b2Vec2) \<Rightarrow> real \<Rightarrow> real \<Rightarrow> real \<Rightarrow> real \<Rightarrow>
   b2World \<times> RigidBody \<Rightarrow> fault + b2World \<times> RigidBody" where
  "applyImpulse convertToB2 i j x y s = applyImpulseVec convertToB2 (i, j) (x, y) s"

subsection \<open>Script properties\<close>

text \<open>The \<^verbatim>\<open>gravity\<close> property of the \<^verbatim>\<open>RigidBody\<close> usertype: its getter and its setter.\<close>

definition gravity_get :: "b2World \<times> RigidBody \<Rightarrow> fault + real" where
  "gravity_get s =
     (case deref (fst s) (body (snd s)) of Inl e \<Rightarrow> Inl e | Inr b \<Rightarrow> Inr (GetGravityScale b))"

definition gravity_set :: "real \<Rightarrow> b2World \<times> RigidBody \<Rightarrow> fault + b2World \<times> RigidBody" where
  "gravity_set g s = on_body (SetGravityScale g) s"











text \<open>
  What a sequence of \<^verbatim>\<open>instantiate\<close> calls keeps true of every state it passes
  through, \<open>n0\<close> being the size of the world when the sequence started.
\<close>

definition rb_inv :: "nat \<Rightarrow> b2World \<times> RigidBody \<Rightarrow> bool" where
  "rb_inv n0 s =
     (n0 \<le> length (fst s) \<and> set (unrelinquished n0 s) \<subseteq> set_option (body (snd s)))"

text \<open>How a call ended: with the fault it ran into, or without one.\<close>

definition outcome :: "fault + 'a \<Rightarrow> fault option" where
  "outcome r = (case r of Inl e \<Rightarrow> Some e | Inr v \<Rightarrow> None)"

section \<open>StatSystem\<close>

text \<open>
  Modelled from the spec: \<^verbatim>\<open>StatSystem::update\<close> and the components it works on. The
  sources hold the declarations of \<^verbatim>\<open>update\<close> and \<^verbatim>\<open>writeMovementStats\<close> only; their
  bodies and the \<^verbatim>\<open>Stats\<close> and \<^verbatim>\<open>Movement\<close> types are not part of them. An entity has
  each of the two components or lacks it. Each tick, for every entity with both a
  \<^verbatim>\<open>Stats\<close> and a \<^verbatim>\<open>Movement\<close> component, the stat fields are written into the movement
  component; an entity where either is absent is skipped. Which fields are copied is
  the parameter \<open>writeMovementStats\<close>, of the declared signature: it reads the stats and
  changes the movement component only.
\<close>

record ('s, 'm) entity =
  stats :: "'s option"
  movement :: "'m option"

definition update_entity :: "('s \<Rightarrow> 'm \<Rightarrow> 'm) \<Rightarrow> ('s, 'm) entity \<Rightarrow> ('s, 'm) entity" where
  "update_entity writeMovementStats e =
     (case stats e of
        None \<Rightarrow> e
      | Some s \<Rightarrow>
          (case movement e of
             None \<Rightarrow> e
           | Some m \<Rightarrow> e\<lparr>movement := Some (writeMovementStats s m)\<rparr>))"

definition StatSystem_update ::
  "('s \<Rightarrow> 'm \<Rightarrow> 'm) \<Rightarrow> ('s, 'm) entity list \<Rightarrow> real \<Rightarrow> ('s, 'm) entity list" where
  "StatSystem_update writeMovementStats world dt = map (update_entity writeMovementStats) world"

section \<open>Replacing the body\<close>

lemma instantiateBody_last_trace:
  "instantiateBody d s = last (instantiateBody_trace d s)"
  by (simp add: instantiateBody_def instantiateBody_trace_def instantiateBody_steps_def Let_def)

text \<open>
  C1. For every component and every body definition, \<^verbatim>\<open>instantiate\<close> appends the old
  body handle, when it is not null, to the dispose list and destroys nothing: the world
  afterwards is the world before with one more body, the one made from the definition.
  The component's handle is the new body's, and the component is flagged out of sync.
\<close>

theorem instantiateBody_defers_disposal:
  "fst (instantiateBody d (w, rb)) = w @ [Some (b2Body_of d)] \<and>
   body (snd (instantiateBody d (w, rb))) = Some (length w) \<and>
   disposeList (snd (instantiateBody d (w, rb))) =
     disposeList rb @ (case body rb of None \<Rightarrow> [] | Some h \<Rightarrow> [Some h]) \<and>
   isOutOfSync (snd (instantiateBody d (w, rb))) = True"
  by (cases "body rb")
    (simp_all add: instantiateBody_def stmt_push_back_def stmt_null_body_def stmt_create_def
      stmt_out_of_sync_def CreateBody_def Let_def)

lemma rb_inv_push_back: "rb_inv n0 s \<Longrightarrow> rb_inv n0 (stmt_push_back s)"
  by (cases s) (auto simp: rb_inv_def unrelinquished_def stmt_push_back_def)

lemma rb_inv_null_body:
  "rb_inv n0 s \<Longrightarrow> body (snd s) \<noteq> None \<Longrightarrow> rb_inv n0 (stmt_null_body (stmt_push_back s))"
  by (cases s) (auto simp: rb_inv_def unrelinquished_def stmt_push_back_def stmt_null_body_def)

lemma rb_inv_create:
  "rb_inv n0 s \<Longrightarrow> body (snd s) = None \<Longrightarrow> rb_inv n0 (stmt_create d s)"
  by (cases s) (auto simp: rb_inv_def unrelinquished_def stmt_create_def CreateBody_def live_def nth_append)

lemma rb_inv_out_of_sync: "rb_inv n0 s \<Longrightarrow> rb_inv n0 (stmt_out_of_sync s)"
  by (cases s) (auto simp: rb_inv_def unrelinquished_def stmt_out_of_sync_def)

lemma body_null_body: "body (snd (stmt_null_body s)) = None"
  by (cases s) (simp add: stmt_null_body_def)

lemma rb_inv_steps:
  assumes "rb_inv n0 s"
  shows "\<forall>t \<in> set (instantiateBody_steps d s). rb_inv n0 t"
proof (cases "body (snd s) = None")
  case True
  with assms show ?thesis
    by (simp add: instantiateBody_steps_def Let_def rb_inv_create rb_inv_out_of_sync)
next
  case False
  with assms show ?thesis
    by (simp add: instantiateBody_steps_def Let_def rb_inv_create rb_inv_out_of_sync
        rb_inv_push_back rb_inv_null_body body_null_body)
qed

lemma rb_inv_instantiateBody: "rb_inv n0 s \<Longrightarrow> rb_inv n0 (instantiateBody d s)"
  using rb_inv_steps [of n0 s d]
  by (simp add: instantiateBody_last_trace instantiateBody_trace_def instantiateBody_steps_def Let_def)

lemma rb_inv_all_steps:
  "rb_inv n0 s \<Longrightarrow> \<forall>t \<in> set (instantiate_all_steps ds s). rb_inv n0 t"
proof (induction ds arbitrary: s)
  case Nil
  then show ?case by simp
next
  case (Cons d ds)
  have 1: "\<forall>t \<in> set (instantiateBody_steps d s). rb_inv n0 t"
    by (rule rb_inv_steps [OF Cons.prems])
  have 2: "rb_inv n0 (instantiateBody d s)"
    by (rule rb_inv_instantiateBody [OF Cons.prems])
  have 3: "\<forall>t \<in> set (instantiate_all_steps ds (instantiateBody d s)). rb_inv n0 t"
    by (rule Cons.IH [OF 2])
  show ?case using 1 3 by (simp add: ball_Un)
qed

lemma rb_inv_start: "rb_inv (length (fst s)) s"
  by (simp add: rb_inv_def unrelinquished_def)

lemma unrelinquished_at_most_one:
  "rb_inv n0 s \<Longrightarrow> length (unrelinquished n0 s) \<le> 1"
proof -
  assume a: "rb_inv n0 s"
  have d: "distinct (unrelinquished n0 s)" by (simp add: unrelinquished_def)
  have "card (set (unrelinquished n0 s)) \<le> card (set_option (body (snd s)))"
    using a by (intro card_mono) (auto simp: rb_inv_def)
  also have "\<dots> \<le> 1" by (cases "body (snd s)") auto
  finally show ?thesis using d by (simp add: distinct_card)
qed


lemma created_when_null_steps:
  "successively (\<lambda>s t. length (fst s) < length (fst t) \<longrightarrow> body (snd s) = None)
     (s # instantiateBody_steps d s)"
  by (cases s) (auto simp: instantiateBody_steps_def Let_def
      stmt_push_back_def stmt_null_body_def stmt_create_def stmt_out_of_sync_def CreateBody_def)

lemma held_grows_steps:
  "successively (\<lambda>s t. held s \<subseteq> held t) (s # instantiateBody_steps d s)"
  by (cases s) (auto simp: instantiateBody_steps_def Let_def held_def
      stmt_push_back_def stmt_null_body_def stmt_create_def stmt_out_of_sync_def CreateBody_def)

lemma last_instantiateBody_steps: "last (s # instantiateBody_steps d s) = instantiateBody d s"
  by (simp add: instantiateBody_last_trace instantiateBody_trace_def)

lemma successively_glue:
  "successively P (x # xs) \<Longrightarrow> successively P (last (x # xs) # ys) \<Longrightarrow>
   successively P (x # xs @ ys)"
  by (induction xs arbitrary: x) (auto simp: successively_Cons)

lemma successively_all_steps:
  assumes "\<And>s d. successively P (s # instantiateBody_steps d s)"
  shows "successively P (s # instantiate_all_steps ds s)"
proof (induction ds arbitrary: s)
  case Nil
  then show ?case by simp
next
  case (Cons d ds)
  have 1: "successively P (s # instantiateBody_steps d s)" by (rule assms)
  have "successively P (instantiateBody d s # instantiate_all_steps ds (instantiateBody d s))"
    by (rule Cons.IH)
  then have 2: "successively P (last (s # instantiateBody_steps d s) #
      instantiate_all_steps ds (instantiateBody d s))"
    by (simp only: last_instantiateBody_steps)
  show ?case using successively_glue [OF 1 2] by simp
qed

lemma last_instantiate_all_trace:
  "last (instantiate_all_trace ds s) = instantiate_all ds s"
proof (induction ds arbitrary: s)
  case Nil
  then show ?case by (simp add: instantiate_all_trace_def)
next
  case (Cons d ds)
  have "last (s # instantiateBody_steps d s @ instantiate_all_steps ds (instantiateBody d s)) =
        last (last (s # instantiateBody_steps d s) # instantiate_all_steps ds (instantiateBody d s))"
    by (cases "instantiate_all_steps ds (instantiateBody d s)") simp_all
  then show ?case
    using Cons.IH [of "instantiateBody d s"]
    by (simp only: instantiate_all_trace_def instantiate_all_steps.simps instantiate_all.simps
        last_instantiateBody_steps)
qed

text \<open>
  C2. Along any sequence of \<^verbatim>\<open>instantiate\<close> calls, in the state on entry and after every
  statement: of the bodies created since the sequence started, at most one is alive and
  not queued for disposal, and it is the one the component's handle refers to; a body is
  created only from a state where the handle is null; and a handle the component held or
  queued is held or queued ever after, so the old handle has been queued and nulled when
  its replacement is created.
\<close>

theorem instantiate_one_live_body:
  "(\<forall>s \<in> set (instantiate_all_trace ds s0).
      length (unrelinquished (length (fst s0)) s) \<le> 1 \<and>
      set (unrelinquished (length (fst s0)) s) \<subseteq> set_option (body (snd s))) \<and>
   successively (\<lambda>s t. length (fst s) < length (fst t) \<longrightarrow> body (snd s) = None)
     (instantiate_all_trace ds s0) \<and>
   successively (\<lambda>s t. held s \<subseteq> held t) (instantiate_all_trace ds s0)"
proof -
  have inv: "\<forall>t \<in> set (instantiate_all_trace ds s0). rb_inv (length (fst s0)) t"
    using rb_inv_all_steps [OF rb_inv_start, of ds s0] rb_inv_start [of s0]
    by (simp add: instantiate_all_trace_def)
  have a: "\<forall>s \<in> set (instantiate_all_trace ds s0).
      length (unrelinquished (length (fst s0)) s) \<le> 1 \<and>
      set (unrelinquished (length (fst s0)) s) \<subseteq> set_option (body (snd s))"
  proof
    fix s assume "s \<in> set (instantiate_all_trace ds s0)"
    with inv have i: "rb_inv (length (fst s0)) s" by blast
    show "length (unrelinquished (length (fst s0)) s) \<le> 1 \<and>
      set (unrelinquished (length (fst s0)) s) \<subseteq> set_option (body (snd s))"
      using unrelinquished_at_most_one [OF i] i by (simp add: rb_inv_def)
  qed
  have b: "successively (\<lambda>s t. length (fst s) < length (fst t) \<longrightarrow> body (snd s) = None)
     (instantiate_all_trace ds s0)"
    unfolding instantiate_all_trace_def by (rule successively_all_steps) (rule created_when_null_steps)
  have c: "successively (\<lambda>s t. held s \<subseteq> held t) (instantiate_all_trace ds s0)"
    unfolding instantiate_all_trace_def by (rule successively_all_steps) (rule held_grows_steps)
  from a b c show ?thesis by blast
qed

lemma instantiate_trace_eval:
  "map (\<lambda>s. (length (fst s), body (snd s), disposeList (snd s)))
     (instantiate_all_trace [b2BodyDef_default, b2BodyDef_default\<lparr>type := b2_dynamicBody\<rparr>]
        (RigidBody_ctor [])) =
   [(1, Some 0, []), (1, Some 0, [Some 0]), (1, None, [Some 0]), (2, Some 1, [Some 0]),
    (2, Some 1, [Some 0]),
    (2, Some 1, [Some 0, Some 1]), (2, None, [Some 0, Some 1]), (3, Some 2, [Some 0, Some 1]), (3, Some 2, [Some 0, Some 1])]"
  by (simp add: instantiate_all_trace_def instantiateBody_steps_def instantiateBody_def
      RigidBody_ctor_def stmt_push_back_def stmt_null_body_def stmt_create_def
      stmt_out_of_sync_def CreateBody_def Let_def)

lemma unrelinquished_trace_eval:
  "map (unrelinquished 1)
     (instantiate_all_trace [b2BodyDef_default, b2BodyDef_default\<lparr>type := b2_dynamicBody\<rparr>]
        (RigidBody_ctor [])) =
   [[], [], [], [1], [1], [], [], [2], [2]]"
  by (simp add: instantiate_all_trace_def instantiateBody_steps_def instantiateBody_def
      RigidBody_ctor_def stmt_push_back_def stmt_null_body_def stmt_create_def
      stmt_out_of_sync_def CreateBody_def Let_def unrelinquished_def live_def nth_append)

theorem instantiate_one_live_body_witness:
  "map (unrelinquished 1)
     (instantiate_all_trace [b2BodyDef_default, b2BodyDef_default\<lparr>type := b2_dynamicBody\<rparr>]
        (RigidBody_ctor [])) =
   [[], [], [], [1], [1], [], [], [2], [2]] \<and>
   map (\<lambda>s. (length (fst s), body (snd s), disposeList (snd s)))
     (instantiate_all_trace [b2BodyDef_default, b2BodyDef_default\<lparr>type := b2_dynamicBody\<rparr>]
        (RigidBody_ctor [])) =
   [(1, Some 0, []), (1, Some 0, [Some 0]), (1, None, [Some 0]), (2, Some 1, [Some 0]),
    (2, Some 1, [Some 0]), (2, Some 1, [Some 0, Some 1]), (2, None, [Some 0, Some 1]),
    (3, Some 2, [Some 0, Some 1]), (3, Some 2, [Some 0, Some 1])] \<and>
   successively (\<lambda>s t. length (fst s) < length (fst t) \<longrightarrow> body (snd s) = None)
     (instantiate_all_trace [b2BodyDef_default, b2BodyDef_default\<lparr>type := b2_dynamicBody\<rparr>]
        (RigidBody_ctor [])) \<and>
   successively (\<lambda>s t. held s \<subseteq> held t)
     (instantiate_all_trace [b2BodyDef_default, b2BodyDef_default\<lparr>type := b2_dynamicBody\<rparr>]
        (RigidBody_ctor []))"
proof -
  have t: "successively (\<lambda>s t. length (fst s) < length (fst t) \<longrightarrow> body (snd s) = None)
     (instantiate_all_trace [b2BodyDef_default, b2BodyDef_default\<lparr>type := b2_dynamicBody\<rparr>]
        (RigidBody_ctor [])) \<and>
   successively (\<lambda>s t. held s \<subseteq> held t)
     (instantiate_all_trace [b2BodyDef_default, b2BodyDef_default\<lparr>type := b2_dynamicBody\<rparr>]
        (RigidBody_ctor []))"
    using instantiate_one_live_body
      [of "[b2BodyDef_default, b2BodyDef_default\<lparr>type := b2_dynamicBody\<rparr>]" "RigidBody_ctor []"]
    by blast
  from unrelinquished_trace_eval instantiate_trace_eval t show ?thesis by blast
qed

section \<open>Operations on the body\<close>

lemma deref_Inr_iff:
  "deref w p = Inr b \<longleftrightarrow> (\<exists>h. p = Some h \<and> h < length w \<and> w ! h = Some b)"
  by (auto simp: deref_def split: option.splits)

lemma on_body_valid:
  "deref w (body rb) = Inr b \<Longrightarrow>
   on_body f (w, rb) = Inr (w[the (body rb) := Some (f b)], rb)"
  by (simp add: on_body_def)

lemma outcome_on_body: "outcome (on_body f (w, rb)) = outcome (deref w (body rb))"
  by (simp add: on_body_def outcome_def split: sum.splits)

lemma deref_updated:
  "deref w (body rb) = Inr b \<Longrightarrow> deref (w[the (body rb) := Some b']) (body rb) = Inr b'"
  by (auto simp: deref_Inr_iff)

lemma warpToVec_valid:
  assumes "deref w (body rb) = Inr b"
  shows "warpToVec convertToB2 dest (w, rb) =
     Inr (w[the (body rb) := Some (b\<lparr>b_position := convertToB2 dest, b_linearVelocity := (0, 0)\<rparr>)],
          rb)"
  using assms deref_updated [OF assms]
  by (simp add: warpToVec_def on_body_def SetTransform_def GetAngle_def SetLinearVelocity_def)

text \<open>
  C3. For a component whose handle leads to a body and every destination, \<^verbatim>\<open>warpTo\<close> (in
  both overloads) returns with the body's position set to the converted destination and
  its linear velocity set to the zero vector.
\<close>

theorem warpTo_position_velocity:
  assumes "deref w (body rb) = Inr b"
  shows "(\<exists>w' b'. warpToVec convertToB2 dest (w, rb) = Inr (w', rb) \<and>
            deref w' (body rb) = Inr b' \<and>
            b_position b' = convertToB2 dest \<and> b_linearVelocity b' = (0, 0)) \<and>
         (\<exists>w' b'. warpTo convertToB2 x y (w, rb) = Inr (w', rb) \<and>
            deref w' (body rb) = Inr b' \<and>
            b_position b' = convertToB2 (x, y) \<and> b_linearVelocity b' = (0, 0))"
  using deref_updated [OF assms]
  by (simp add: warpTo_def warpToVec_valid [OF assms])

theorem warpTo_position_velocity_witness:
  "deref [Some (b2Body_of (b2BodyDef_default\<lparr>angle := 2, linearVelocity := (5, 7)\<rparr>))]
     (body \<lparr>body = Some 0, previousPosition = (0, 0), previousAngle = 0, isOutOfSync = True,
            disposeList = []\<rparr>) =
     Inr (b2Body_of (b2BodyDef_default\<lparr>angle := 2, linearVelocity := (5, 7)\<rparr>)) \<and>
   (\<exists>w' b'. warpTo (\<lambda>v. (fst v / 30, snd v / 30)) 60 90
        ([Some (b2Body_of (b2BodyDef_default\<lparr>angle := 2, linearVelocity := (5, 7)\<rparr>))],
         \<lparr>body = Some 0, previousPosition = (0, 0), previousAngle = 0, isOutOfSync = True,
            disposeList = []\<rparr>) =
        Inr (w', \<lparr>body = Some 0, previousPosition = (0, 0), previousAngle = 0, isOutOfSync = True,
            disposeList = []\<rparr>) \<and>
      deref w' (Some 0) = Inr b' \<and> b_position b' = (2, 3) \<and> b_linearVelocity b' = (0, 0))"
proof -
  have h: "deref [Some (b2Body_of (b2BodyDef_default\<lparr>angle := 2, linearVelocity := (5, 7)\<rparr>))]
     (body \<lparr>body = Some 0, previousPosition = (0, 0), previousAngle = 0, isOutOfSync = True,
            disposeList = []\<rparr>) =
     Inr (b2Body_of (b2BodyDef_default\<lparr>angle := 2, linearVelocity := (5, 7)\<rparr>))"
    by (simp add: deref_def)
  show ?thesis
    using h warpTo_position_velocity [OF h, of "\<lambda>v. (fst v / 30, snd v / 30)" "(60, 90)" 60 90]
    by simp
qed

text \<open>
  C9. For a component whose handle leads to a body and every destination, \<^verbatim>\<open>warpTo\<close>
  leaves the body's angle as it was: the body afterwards is the body before except for
  its position and its linear velocity, no other body of the world changes, and the
  component itself is unchanged.
\<close>

theorem warpTo_keeps_angle:
  assumes "deref w (body rb) = Inr b"
  shows "(\<exists>b'. warpToVec convertToB2 dest (w, rb) = Inr (w[the (body rb) := Some b'], rb) \<and>
            b_angle b' = b_angle b \<and>
            b' = b\<lparr>b_position := b_position b', b_linearVelocity := b_linearVelocity b'\<rparr>) \<and>
         (\<exists>b'. warpTo convertToB2 x y (w, rb) = Inr (w[the (body rb) := Some b'], rb) \<and>
            b_angle b' = b_angle b \<and>
            b' = b\<lparr>b_position := b_position b', b_linearVelocity := b_linearVelocity b'\<rparr>)"
proof (intro conjI)
  show "\<exists>b'. warpToVec convertToB2 dest (w, rb) = Inr (w[the (body rb) := Some b'], rb) \<and>
            b_angle b' = b_angle b \<and>
            b' = b\<lparr>b_position := b_position b', b_linearVelocity := b_linearVelocity b'\<rparr>"
    by (rule exI [of _ "b\<lparr>b_position := convertToB2 dest, b_linearVelocity := (0, 0)\<rparr>"])
      (simp add: warpToVec_valid [OF assms])
  show "\<exists>b'. warpTo convertToB2 x y (w, rb) = Inr (w[the (body rb) := Some b'], rb) \<and>
            b_angle b' = b_angle b \<and>
            b' = b\<lparr>b_position := b_position b', b_linearVelocity := b_linearVelocity b'\<rparr>"
    by (rule exI [of _ "b\<lparr>b_position := convertToB2 (x, y), b_linearVelocity := (0, 0)\<rparr>"])
      (simp add: warpTo_def warpToVec_valid [OF assms])
qed

theorem warpTo_keeps_angle_witness:
  "deref [Some (b2Body_of (b2BodyDef_default\<lparr>angle := 2, linearVelocity := (5, 7)\<rparr>))]
     (body \<lparr>body = Some 0, previousPosition = (0, 0), previousAngle = 0, isOutOfSync = True,
            disposeList = []\<rparr>) =
     Inr (b2Body_of (b2BodyDef_default\<lparr>angle := 2, linearVelocity := (5, 7)\<rparr>)) \<and>
   (\<exists>b'. warpToVec (\<lambda>v. (fst v / 30, snd v / 30)) (60, 90)
        ([Some (b2Body_of (b2BodyDef_default\<lparr>angle := 2, linearVelocity := (5, 7)\<rparr>))],
         \<lparr>body = Some 0, previousPosition = (0, 0), previousAngle = 0, isOutOfSync = True,
            disposeList = []\<rparr>) =
        Inr ([Some b'], \<lparr>body = Some 0, previousPosition = (0, 0), previousAngle = 0,
            isOutOfSync = True, disposeList = []\<rparr>) \<and>
      b_angle b' = 2 \<and> b_gravityScale b' = 1 \<and> b_type b' = b2_staticBody)"
proof -
  have h: "deref [Some (b2Body_of (b2BodyDef_default\<lparr>angle := 2, linearVelocity := (5, 7)\<rparr>))]
     (body \<lparr>body = Some 0, previousPosition = (0, 0), previousAngle = 0, isOutOfSync = True,
            disposeList = []\<rparr>) =
     Inr (b2Body_of (b2BodyDef_default\<lparr>angle := 2, linearVelocity := (5, 7)\<rparr>))"
    by (simp add: deref_def)
  from warpTo_keeps_angle [OF h, of "\<lambda>v. (fst v / 30, snd v / 30)" "(60, 90)" 60 90]
  obtain b' where
    1: "warpToVec (\<lambda>v. (fst v / 30, snd v / 30)) (60, 90)
        ([Some (b2Body_of (b2BodyDef_default\<lparr>angle := 2, linearVelocity := (5, 7)\<rparr>))],
         \<lparr>body = Some 0, previousPosition = (0, 0), previousAngle = 0, isOutOfSync = True,
            disposeList = []\<rparr>) =
        Inr ([Some (b2Body_of (b2BodyDef_default\<lparr>angle := 2, linearVelocity := (5, 7)\<rparr>))]
               [the (body \<lparr>body = Some 0, previousPosition = (0, 0), previousAngle = 0,
                  isOutOfSync = True, disposeList = []\<rparr>) := Some b'],
             \<lparr>body = Some 0, previousPosition = (0, 0), previousAngle = 0,
            isOutOfSync = True, disposeList = []\<rparr>)"
    and 2: "b_angle b' = b_angle (b2Body_of (b2BodyDef_default\<lparr>angle := 2, linearVelocity := (5, 7)\<rparr>))"
    and 3: "b' = (b2Body_of (b2BodyDef_default\<lparr>angle := 2, linearVelocity := (5, 7)\<rparr>))
               \<lparr>b_position := b_position b', b_linearVelocity := b_linearVelocity b'\<rparr>"
    by blast
  have 4: "b_gravityScale b' = 1 \<and> b_type b' = b2_staticBody"
    by (subst 3, subst (2) 3) (simp add: b2Body_of_def b2BodyDef_default_def)
  show ?thesis
    using h 1 2 4 by (intro conjI exI [of _ b']) (simp_all add: b2Body_of_def b2BodyDef_default_def)
qed

text \<open>
  C10. For a component whose handle leads to a body, the \<^verbatim>\<open>gravity\<close> getter returns the
  body's gravity scale as it is stored, and the setter stores its argument as it is given,
  so that reading after setting \<open>g\<close> returns \<open>g\<close>. Neither takes the conversion or the
  scale factor.
\<close>

theorem gravity_pass_through:
  assumes "deref w (body rb) = Inr b"
  shows "gravity_get (w, rb) = Inr (b_gravityScale b) \<and>
         gravity_set g (w, rb) = Inr (w[the (body rb) := Some (b\<lparr>b_gravityScale := g\<rparr>)], rb) \<and>
         gravity_get (w[the (body rb) := Some (b\<lparr>b_gravityScale := g\<rparr>)], rb) = Inr g"
  using assms deref_updated [OF assms]
  by (simp add: gravity_get_def gravity_set_def on_body_valid GetGravityScale_def
      SetGravityScale_def)

theorem gravity_pass_through_witness:
  "deref (fst (RigidBody_ctor [])) (body (snd (RigidBody_ctor []))) =
     Inr (b2Body_of b2BodyDef_default) \<and>
   gravity_get (RigidBody_ctor []) = Inr 1 \<and>
   gravity_set 250 (RigidBody_ctor []) =
     Inr ([Some ((b2Body_of b2BodyDef_default)\<lparr>b_gravityScale := 250\<rparr>)],
          snd (RigidBody_ctor [])) \<and>
   gravity_get ([Some ((b2Body_of b2BodyDef_default)\<lparr>b_gravityScale := 250\<rparr>)],
          snd (RigidBody_ctor [])) = Inr 250"
proof -
  have h: "deref (fst (RigidBody_ctor [])) (body (snd (RigidBody_ctor []))) =
     Inr (b2Body_of b2BodyDef_default)"
    by (simp add: RigidBody_ctor_def CreateBody_def deref_def)
  show ?thesis
    using h gravity_pass_through [OF h, of 250]
    by (simp add: RigidBody_ctor_def CreateBody_def b2Body_of_def b2BodyDef_default_def)
qed

text \<open>
  C6. For a component whose handle leads to a body, each of the twelve force and impulse
  operations makes exactly one call to the engine on that body: the matching
  \<^verbatim>\<open>ApplyForce\<close>, \<^verbatim>\<open>ApplyForceToCenter\<close>, \<^verbatim>\<open>ApplyLinearImpulse\<close> or
  \<^verbatim>\<open>ApplyLinearImpulseToCenter\<close>, with the force or impulse converted, the point
  converted (and, for the relative variants, mapped to a world point by the engine after
  the conversion), and the wake flag true.
\<close>

theorem force_family_forwards:
  assumes "deref w (body rb) = Inr b"
  shows
   "applyForceToCentreVec convertToB2 force (w, rb) =
      Inr (w[the (body rb) := Some (b\<lparr>b_calls := b_calls b @
        [ApplyForceToCenter (convertToB2 force) True]\<rparr>)], rb) \<and>
    applyForceToCentre convertToB2 i j (w, rb) =
      Inr (w[the (body rb) := Some (b\<lparr>b_calls := b_calls b @
        [ApplyForceToCenter (convertToB2 (i, j)) True]\<rparr>)], rb) \<and>
    applyForceRelVec convertToB2 GetWorldPoint force pos (w, rb) =
      Inr (w[the (body rb) := Some (b\<lparr>b_calls := b_calls b @
        [ApplyForce (convertToB2 force) (GetWorldPoint b (convertToB2 pos)) True]\<rparr>)], rb) \<and>
    applyForceRel convertToB2 GetWorldPoint i j x y (w, rb) =
      Inr (w[the (body rb) := Some (b\<lparr>b_calls := b_calls b @
        [ApplyForce (convertToB2 (i, j)) (GetWorldPoint b (convertToB2 (x, y))) True]\<rparr>)], rb) \<and>
    applyForceVec convertToB2 force pos (w, rb) =
      Inr (w[the (body rb) := Some (b\<lparr>b_calls := b_calls b @
        [ApplyForce (convertToB2 force) (convertToB2 pos) True]\<rparr>)], rb) \<and>
    applyForce convertToB2 i j x y (w, rb) =
      Inr (w[the (body rb) := Some (b\<lparr>b_calls := b_calls b @
        [ApplyForce (convertToB2 (i, j)) (convertToB2 (x, y)) True]\<rparr>)], rb) \<and>
    applyImpulseToCentreVec convertToB2 force (w, rb) =
      Inr (w[the (body rb) := Some (b\<lparr>b_calls := b_calls b @
        [ApplyLinearImpulseToCenter (convertToB2 force) True]\<rparr>)], rb) \<and>
    applyImpulseToCentre convertToB2 i j (w, rb) =
      Inr (w[the (body rb) := Some (b\<lparr>b_calls := b_calls b @
        [ApplyLinearImpulseToCenter (convertToB2 (i, j)) True]\<rparr>)], rb) \<and>
    applyImpulseRelVec convertToB2 GetWorldPoint force pos (w, rb) =
      Inr (w[the (body rb) := Some (b\<lparr>b_calls := b_calls b @
        [ApplyLinearImpulse (convertToB2 force) (GetWorldPoint b (convertToB2 pos)) True]\<rparr>)], rb) \<and>
    applyImpulseRel convertToB2 GetWorldPoint i j x y (w, rb) =
      Inr (w[the (body rb) := Some (b\<lparr>b_calls := b_calls b @
        [ApplyLinearImpulse (convertToB2 (i, j)) (GetWorldPoint b (convertToB2 (x, y))) True]\<rparr>)], rb) \<and>
    applyImpulseVec convertToB2 force pos (w, rb) =
      Inr (w[the (body rb) := Some (b\<lparr>b_calls := b_calls b @
        [ApplyLinearImpulse (convertToB2 force) (convertToB2 pos) True]\<rparr>)], rb) \<and>
    applyImpulse convertToB2 i j x y (w, rb) =
      Inr (w[the (body rb) := Some (b\<lparr>b_calls := b_calls b @
        [ApplyLinearImpulse (convertToB2 (i, j)) (convertToB2 (x, y)) True]\<rparr>)], rb)"
  using assms
  by (simp add: applyForceToCentreVec_def applyForceToCentre_def applyForceRelVec_def
      applyForceRel_def applyForceVec_def applyForce_def applyImpulseToCentreVec_def
      applyImpulseToCentre_def applyImpulseRelVec_def applyImpulseRel_def applyImpulseVec_def
      applyImpulse_def on_body_valid engine_call_def)

theorem force_family_forwards_witness:
  "deref (fst (RigidBody_ctor [])) (body (snd (RigidBody_ctor []))) =
     Inr (b2Body_of b2BodyDef_default) \<and>
   applyForce (\<lambda>v. (fst v / 30, snd v / 30)) 30 60 90 120 (RigidBody_ctor []) =
     Inr ([Some ((b2Body_of b2BodyDef_default)\<lparr>b_calls := [ApplyForce (1, 2) (3, 4) True]\<rparr>)],
          snd (RigidBody_ctor [])) \<and>
   applyImpulseRel (\<lambda>v. (fst v / 30, snd v / 30))
       (\<lambda>b p. (fst p + fst (b_position b) + 5, snd p + snd (b_position b))) 30 60 90 120
       (RigidBody_ctor []) =
     Inr ([Some ((b2Body_of b2BodyDef_default)
             \<lparr>b_calls := [ApplyLinearImpulse (1, 2) (8, 4) True]\<rparr>)],
          snd (RigidBody_ctor [])) \<and>
   applyForceToCentre (\<lambda>v. (fst v / 30, snd v / 30)) 30 60 (RigidBody_ctor []) =
     Inr ([Some ((b2Body_of b2BodyDef_default)\<lparr>b_calls := [ApplyForceToCenter (1, 2) True]\<rparr>)],
          snd (RigidBody_ctor []))"
proof -
  have h: "deref (fst (RigidBody_ctor [])) (body (snd (RigidBody_ctor []))) =
     Inr (b2Body_of b2BodyDef_default)"
    by (simp add: RigidBody_ctor_def CreateBody_def deref_def)
  show ?thesis
    using h force_family_forwards [OF h, of "\<lambda>v. (fst v / 30, snd v / 30)" "(30, 60)" 30 60
        "\<lambda>b p. (fst p + fst (b_position b) + 5, snd p + snd (b_position b))" "(90, 120)" 90 120]
    by (simp add: RigidBody_ctor_def CreateBody_def b2Body_of_def b2BodyDef_default_def)
qed

section \<open>Faults\<close>

lemma outcome_warpToVec:
  "outcome (warpToVec convertToB2 dest (w, rb)) = outcome (deref w (body rb))"
proof (cases "deref w (body rb)")
  case (Inl e)
  then show ?thesis by (simp add: warpToVec_def outcome_def)
next
  case (Inr b)
  then show ?thesis by (simp add: warpToVec_valid outcome_def)
qed

lemma outcome_rel:
  "outcome (case deref w (body rb) of Inl e \<Rightarrow> Inl e | Inr b \<Rightarrow> on_body (f b) (w, rb)) =
   outcome (deref w (body rb))"
  by (cases "deref w (body rb)") (simp_all add: outcome_on_body, simp add: outcome_def)

text \<open>
  C8. Every operation on the body ends exactly as following the handle ends: with the
  null-dereference fault when the handle is null, with no fault when the handle leads to a
  body, so that no operation checks the handle and none has a failure of its own. The
  exception is \<^verbatim>\<open>instantiate\<close>, which has no fault at all: with a null handle its guard
  skips the disposal and the body is created.
\<close>

theorem no_null_check_but_the_guard:
  "outcome (deref w None) = Some NullDereference \<and>
   outcome (addFixture fd (w, rb)) = outcome (deref w (body rb)) \<and>
   outcome (warpTo convertToB2 x y (w, rb)) = outcome (deref w (body rb)) \<and>
   outcome (warpToVec convertToB2 v (w, rb)) = outcome (deref w (body rb)) \<and>
   outcome (applyForce convertToB2 i j x y (w, rb)) = outcome (deref w (body rb)) \<and>
   outcome (applyForceVec convertToB2 u v (w, rb)) = outcome (deref w (body rb)) \<and>
   outcome (applyForceToCentre convertToB2 i j (w, rb)) = outcome (deref w (body rb)) \<and>
   outcome (applyForceToCentreVec convertToB2 u (w, rb)) = outcome (deref w (body rb)) \<and>
   outcome (applyForceRel convertToB2 GetWorldPoint i j x y (w, rb)) =
     outcome (deref w (body rb)) \<and>
   outcome (applyForceRelVec convertToB2 GetWorldPoint u v (w, rb)) =
     outcome (deref w (body rb)) \<and>
   outcome (applyImpulse convertToB2 i j x y (w, rb)) = outcome (deref w (body rb)) \<and>
   outcome (applyImpulseVec convertToB2 u v (w, rb)) = outcome (deref w (body rb)) \<and>
   outcome (applyImpulseToCentre convertToB2 i j (w, rb)) = outcome (deref w (body rb)) \<and>
   outcome (applyImpulseToCentreVec convertToB2 u (w, rb)) = outcome (deref w (body rb)) \<and>
   outcome (applyImpulseRel convertToB2 GetWorldPoint i j x y (w, rb)) =
     outcome (deref w (body rb)) \<and>
   outcome (applyImpulseRelVec convertToB2 GetWorldPoint u v (w, rb)) =
     outcome (deref w (body rb)) \<and>
   outcome (gravity_get (w, rb)) = outcome (deref w (body rb)) \<and>
   outcome (gravity_set g (w, rb)) = outcome (deref w (body rb)) \<and>
   instantiateBody d (w, rb\<lparr>body := None\<rparr>) =
     (w @ [Some (b2Body_of d)], rb\<lparr>body := Some (length w), isOutOfSync := True\<rparr>)"
proof -
  have g: "outcome (gravity_get (w, rb)) = outcome (deref w (body rb))"
    by (simp add: gravity_get_def outcome_def split: sum.splits)
  have n: "outcome (deref w None) = Some NullDereference"
    by (simp add: deref_def outcome_def)
  have i: "instantiateBody d (w, rb\<lparr>body := None\<rparr>) =
     (w @ [Some (b2Body_of d)], rb\<lparr>body := Some (length w), isOutOfSync := True\<rparr>)"
    by (simp add: instantiateBody_def stmt_create_def stmt_out_of_sync_def CreateBody_def)
  show ?thesis
    by (simp only: n g i addFixture_def warpTo_def outcome_warpToVec applyForce_def
        applyForceVec_def applyForceToCentre_def applyForceToCentreVec_def applyForceRel_def
        applyForceRelVec_def applyImpulse_def applyImpulseVec_def applyImpulseToCentre_def
        applyImpulseToCentreVec_def applyImpulseRel_def applyImpulseRelVec_def gravity_set_def
        outcome_on_body outcome_rel fst_conv snd_conv simp_thms)
qed

section \<open>Shape factories\<close>

lemma shape_factories:
  "BoxShape convertToB2 w h =
     b2PolygonShape_SetAsBox (fst (convertToB2 (w, h))) (snd (convertToB2 (w, h))) \<and>
   CircleShape convertToB2 x y r = b2CircleShape (convertToB2 (x, y)) r \<and>
   LineShape convertToB2 x1 y1 x2 y2 = b2EdgeShape (convertToB2 (x1, y1)) (convertToB2 (x2, y2))"
  by (simp add: BoxShape_def CircleShape_def LineShape_def Let_def)

text \<open>
  C4. With a conversion that divides by 30, \<^verbatim>\<open>BoxShape\<close> converts both extents and
  \<^verbatim>\<open>LineShape\<close> both end points, and \<^verbatim>\<open>CircleShape\<close> converts the centre; the radius of
  the circle is stored as it was given, 30 and not 1.
\<close>

theorem CircleShape_radius_not_converted:
  "BoxShape (\<lambda>v. (fst v / 30, snd v / 30)) 60 90 = b2PolygonShape_SetAsBox 2 3 \<and>
   LineShape (\<lambda>v. (fst v / 30, snd v / 30)) 60 90 30 120 = b2EdgeShape (2, 3) (1, 4) \<and>
   CircleShape (\<lambda>v. (fst v / 30, snd v / 30)) 60 90 30 = b2CircleShape (2, 3) 30"
  by (simp add: BoxShape_def CircleShape_def LineShape_def)

section \<open>Fixture-definition properties\<close>










section \<open>The stat system\<close>

text \<open>
  C7. A tick of \<^verbatim>\<open>StatSystem::update\<close> keeps the entities and their \<^verbatim>\<open>Stats\<close>; an entity
  with both components gets the movement component that \<^verbatim>\<open>writeMovementStats\<close> makes
  from its stats, and an entity lacking either component is left as it was.
\<close>

theorem StatSystem_update_copies_or_skips:
  "length (StatSystem_update writeMovementStats world dt) = length world \<and>
   map stats (StatSystem_update writeMovementStats world dt) = map stats world \<and>
   (\<forall>i < length world.
      (\<forall>s m. stats (world ! i) = Some s \<longrightarrow> movement (world ! i) = Some m \<longrightarrow>
         StatSystem_update writeMovementStats world dt ! i =
           (world ! i)\<lparr>movement := Some (writeMovementStats s m)\<rparr>) \<and>
      (stats (world ! i) = None \<or> movement (world ! i) = None \<longrightarrow>
         StatSystem_update writeMovementStats world dt ! i = world ! i))"
  by (auto simp: StatSystem_update_def update_entity_def split: option.splits)

theorem StatSystem_update_copies_or_skips_witness:
  "StatSystem_update (\<lambda>s m. s)
     [\<lparr>stats = Some (7::nat), movement = Some (1::nat)\<rparr>, \<lparr>stats = Some 8, movement = None\<rparr>,
      \<lparr>stats = None, movement = Some 2\<rparr>, \<lparr>stats = None, movement = None\<rparr>] 0 ! 0 =
     \<lparr>stats = Some 7, movement = Some 7\<rparr> \<and>
   StatSystem_update (\<lambda>s m. s)
     [\<lparr>stats = Some (7::nat), movement = Some (1::nat)\<rparr>, \<lparr>stats = Some 8, movement = None\<rparr>,
      \<lparr>stats = None, movement = Some 2\<rparr>, \<lparr>stats = None, movement = None\<rparr>] 0 ! 1 =
     \<lparr>stats = Some 8, movement = None\<rparr> \<and>
   StatSystem_update (\<lambda>s m. s)
     [\<lparr>stats = Some (7::nat), movement = Some (1::nat)\<rparr>, \<lparr>stats = Some 8, movement = None\<rparr>,
      \<lparr>stats = None, movement = Some 2\<rparr>, \<lparr>stats = None, movement = None\<rparr>] 0 ! 2 =
     \<lparr>stats = None, movement = Some 2\<rparr> \<and>
   length (StatSystem_update (\<lambda>s m. s)
     [\<lparr>stats = Some (7::nat), movement = Some (1::nat)\<rparr>, \<lparr>stats = Some 8, movement = None\<rparr>,
      \<lparr>stats = None, movement = Some 2\<rparr>, \<lparr>stats = None, movement = None\<rparr>] 0) = 4"
  using StatSystem_update_copies_or_skips [of "\<lambda>s m. s"
     "[\<lparr>stats = Some (7::nat), movement = Some (1::nat)\<rparr>, \<lparr>stats = Some 8, movement = None\<rparr>,
      \<lparr>stats = None, movement = Some 2\<rparr>, \<lparr>stats = None, movement = None\<rparr>]" 0]
  by (simp add: StatSystem_update_def update_entity_def)

end
